theory Spec2Isabelle
  imports Main "HOL-Library.Word" "HOL-Library.Multiset" "HOL-Library.Signed_Division"
begin

unbundle bit_operations_syntax

section \<open>Outcomes of a call\<close>

text \<open>
  A C++ call either returns, throws one of the JSON library's exceptions (both derive from
  \<open>std::exception\<close>), or has no defined result: the library's \<open>JSON_ASSERT\<close> on a
  missing key of a const document, and a floating-point to integer cast out of range.
  An outcome is \<open>Inr v\<close> for a returned value and \<open>Inl f\<close> otherwise.
\<close>

datatype fault = parse_error | type_error | undefined_behaviour

definition bind :: "fault + 'a \<Rightarrow> ('a \<Rightarrow> fault + 'b) \<Rightarrow> fault + 'b" where
  "bind m f = (case m of Inl e \<Rightarrow> Inl e | Inr v \<Rightarrow> f v)"

section \<open>Scalars\<close>

text \<open>
  A \<open>double\<close> is its IEEE-754 binary64 bit pattern: sign bit 63, exponent bits 62..52,
  fraction bits 51..0. The program stores, copies and converts doubles and never
  computes with them. A \<open>steady_clock::time_point\<close> is its tick count in nanoseconds,
  a 64-bit signed value.
\<close>

type_synonym double = "64 word"
type_synonym time_point = int

definition double_100 :: double where
  "double_100 = 0x4059000000000000"

definition double_0 :: double where
  "double_0 = 0"

definition double_frac :: "double \<Rightarrow> nat" where
  "double_frac d = unat (d AND 0xFFFFFFFFFFFFF)"

definition double_exp :: "double \<Rightarrow> nat" where
  "double_exp d = unat (drop_bit 52 d AND 0x7FF)"

text \<open>The integer part of a finite double, as \<open>static_cast\<close> to an integer type takes it.\<close>

definition double_trunc :: "double \<Rightarrow> int option" where
  "double_trunc d =
     (let e = double_exp d; m = int (2 ^ 52 + double_frac d) in
      if e = 2047 then None
      else if e = 0 then Some 0
      else let mag = (if 1075 \<le> e then m * 2 ^ (e - 1075) else m div 2 ^ (1075 - e))
           in Some (if bit d 63 then - mag else mag))"

definition double_to_int32 :: "double \<Rightarrow> fault + 32 word" where
  "double_to_int32 d =
     (case double_trunc d of
        None \<Rightarrow> Inl undefined_behaviour
      | Some v \<Rightarrow> if - (2 ^ 31) \<le> v \<and> v < 2 ^ 31 then Inr (word_of_int v)
                  else Inl undefined_behaviour)"

definition double_to_int64 :: "double \<Rightarrow> fault + 64 word" where
  "double_to_int64 d =
     (case double_trunc d of
        None \<Rightarrow> Inl undefined_behaviour
      | Some v \<Rightarrow> if - (2 ^ 63) \<le> v \<and> v < 2 ^ 63 then Inr (word_of_int v)
                  else Inl undefined_behaviour)"

text \<open>Index of the highest set bit of a positive number.\<close>

fun top_bit :: "nat \<Rightarrow> nat" where
  "top_bit n = (if n < 2 then 0 else Suc (top_bit (n div 2)))"

declare top_bit.simps [simp del]

text \<open>
  An integer of at most 64 bits converted to double, rounding to nearest, ties to even.
  A carry out of the 53-bit significand moves into the exponent field by the addition.
\<close>

definition int_to_double :: "int \<Rightarrow> double" where
  "int_to_double n =
     (if n = 0 then 0
      else let m = nat \<bar>n\<bar>; e = top_bit m;
               sig = (if e \<le> 52 then m * 2 ^ (52 - e)
                      else let q = m div 2 ^ (e - 52); r = m mod 2 ^ (e - 52);
                               half = 2 ^ (e - 53)
                           in if half < r \<or> (r = half \<and> odd q) then q + 1 else q)
           in (if n < 0 then push_bit 63 1 else 0) +
              word_of_nat ((e + 1023) * 2 ^ 52 + (sig - 2 ^ 52)))"

text \<open>
  Scoped enumerations have the underlying type \<open>int\<close>; a \<open>static_cast\<close> stores any
  32-bit value in them, so they are modelled by their underlying value.
\<close>

type_synonym CommandType = "32 word"
type_synonym UnitStatus = "32 word"
type_synonym MessageType = "32 word"

definition MOVE :: CommandType where "MOVE = 0"
definition REPORT :: CommandType where "REPORT = 1"
definition ALERT :: CommandType where "ALERT = 2"
definition SHUTDOWN :: CommandType where "SHUTDOWN = 3"

definition UnitStatus_IDLE :: UnitStatus where "UnitStatus_IDLE = 0"
definition UnitStatus_MOVING :: UnitStatus where "UnitStatus_MOVING = 1"
definition UnitStatus_BUSY :: UnitStatus where "UnitStatus_BUSY = 2"
definition UnitStatus_ERROR :: UnitStatus where "UnitStatus_ERROR = 3"
definition UnitStatus_OFFLINE :: UnitStatus where "UnitStatus_OFFLINE = 4"

definition MessageType_COMMAND :: MessageType where "MessageType_COMMAND = 0"
definition MessageType_TELEMETRY :: MessageType where "MessageType_TELEMETRY = 1"
definition MessageType_ACKNOWLEDGMENT :: MessageType where "MessageType_ACKNOWLEDGMENT = 2"
definition MessageType_ERROR :: MessageType where "MessageType_ERROR = 3"

lemmas CommandType_defs = MOVE_def REPORT_def ALERT_def SHUTDOWN_def

section \<open>JSON documents (the subset of nlohmann::json the program uses)\<close>

text \<open>
  \<open>JInt\<close> is \<open>number_integer\<close> (read signed), \<open>JUInt\<close> is \<open>number_unsigned\<close>.
  An object is a list of key/value pairs looked up by key; the first pair of a key counts.
\<close>

datatype json =
    JNull
  | JBool bool
  | JInt "64 word"
  | JUInt "64 word"
  | JFloat double
  | JString string
  | JArray "json list"
  | JObject "(string \<times> json) list"

text \<open>\<open>j.contains(key)\<close>: false on anything that is not an object.\<close>

definition contains :: "json \<Rightarrow> string \<Rightarrow> bool" where
  "contains j key = (case j of JObject kvs \<Rightarrow> map_of kvs key \<noteq> None | _ \<Rightarrow> False)"

text \<open>
  \<open>j[key]\<close> on a const document: \<open>type_error\<close> 305 when \<open>j\<close> is not an object; a
  missing key is guarded by \<open>JSON_ASSERT\<close> only and is undefined behaviour.
\<close>

definition at_const :: "json \<Rightarrow> string \<Rightarrow> fault + json" where
  "at_const j key =
     (case j of
        JObject kvs \<Rightarrow> (case map_of kvs key of Some v \<Rightarrow> Inr v
                                            | None \<Rightarrow> Inl undefined_behaviour)
      | _ \<Rightarrow> Inl type_error)"

text \<open>
  \<open>j[key]\<close> on a non-const document: a null document becomes an empty object, a missing
  key is inserted with the value null. The callers read from a local copy, so only the
  value read is kept.
\<close>

definition at_mutable :: "json \<Rightarrow> string \<Rightarrow> fault + json" where
  "at_mutable j key =
     (case j of
        JNull \<Rightarrow> Inr JNull
      | JObject kvs \<Rightarrow> (case map_of kvs key of Some v \<Rightarrow> Inr v | None \<Rightarrow> Inr JNull)
      | _ \<Rightarrow> Inl type_error)"

text \<open>Conversions \<open>get<T>()\<close>: \<open>type_error\<close> 302 on a document of another kind.\<close>

definition get_string :: "json \<Rightarrow> fault + string" where
  "get_string j = (case j of JString s \<Rightarrow> Inr s | _ \<Rightarrow> Inl type_error)"

definition get_double :: "json \<Rightarrow> fault + double" where
  "get_double j =
     (case j of
        JFloat d \<Rightarrow> Inr d
      | JInt n \<Rightarrow> Inr (int_to_double (sint n))
      | JUInt n \<Rightarrow> Inr (int_to_double (uint n))
      | _ \<Rightarrow> Inl type_error)"

text \<open>To an enumeration: the number is cast to the underlying \<open>int\<close>.\<close>

definition get_enum :: "json \<Rightarrow> fault + 32 word" where
  "get_enum j =
     (case j of
        JInt n \<Rightarrow> Inr (ucast n)
      | JUInt n \<Rightarrow> Inr (ucast n)
      | JFloat d \<Rightarrow> double_to_int32 d
      | _ \<Rightarrow> Inl type_error)"

definition get_int64 :: "json \<Rightarrow> fault + 64 word" where
  "get_int64 j =
     (case j of
        JInt n \<Rightarrow> Inr n
      | JUInt n \<Rightarrow> Inr n
      | JFloat d \<Rightarrow> double_to_int64 d
      | _ \<Rightarrow> Inl type_error)"

text \<open>
  \<open>j.value(key, default)\<close>: \<open>type_error\<close> 306 when \<open>j\<close> is not an object, the
  converted member when the key is present, the default otherwise.
\<close>

definition value_or :: "json \<Rightarrow> string \<Rightarrow> 'a \<Rightarrow> (json \<Rightarrow> fault + 'a) \<Rightarrow> fault + 'a" where
  "value_or j key dflt conv =
     (case j of
        JObject kvs \<Rightarrow> (case map_of kvs key of Some v \<Rightarrow> conv v | None \<Rightarrow> Inr dflt)
      | _ \<Rightarrow> Inl type_error)"

section \<open>Units (domain/unit.h)\<close>

datatype UnitId = UnitId (UnitId_value: string)

datatype Position = Position (pos_x: double) (pos_y: double) (pos_z: double)

record Unit =
  Unit_id :: UnitId
  Unit_position :: Position
  Unit_status :: UnitStatus
  Unit_last_update :: time_point

definition set_position :: "Position \<Rightarrow> time_point \<Rightarrow> Unit \<Rightarrow> Unit" where
  "set_position pos now u = u\<lparr>Unit_position := pos, Unit_last_update := now\<rparr>"

definition set_status :: "UnitStatus \<Rightarrow> time_point \<Rightarrow> Unit \<Rightarrow> Unit" where
  "set_status status now u = u\<lparr>Unit_status := status, Unit_last_update := now\<rparr>"

section \<open>Commands (domain/command.h)\<close>

record Command =
  Command_id :: string
  Command_target_id :: UnitId
  Command_type :: CommandType
  Command_payload :: json
  Command_timestamp :: time_point

text \<open>\<open>std::to_string\<close> of an unsigned number: its decimal digits.\<close>

fun to_string :: "nat \<Rightarrow> string" where
  "to_string n =
     (if n < 10 then [char_of (48 + n)]
      else to_string (n div 10) @ [char_of (48 + n mod 10)])"

declare to_string.simps [simp del]

text \<open>
  \<open>generate_id\<close> reads the process-wide \<open>std::atomic<uint64_t>\<close> counter and adds one
  to it (\<open>fetch_add\<close>); the counter is threaded through every construction.
\<close>

definition generate_id :: "64 word \<Rightarrow> string \<times> 64 word" where
  "generate_id counter = (''cmd_'' @ to_string (unat counter), counter + 1)"

definition Command_ctor ::
  "UnitId \<Rightarrow> CommandType \<Rightarrow> json \<Rightarrow> time_point \<Rightarrow> 64 word \<Rightarrow> Command \<times> 64 word" where
  "Command_ctor target_id type payload now counter =
     (let (new_id, counter') = generate_id counter
      in (\<lparr>Command_id = new_id, Command_target_id = target_id, Command_type = type,
           Command_payload = payload, Command_timestamp = now\<rparr>, counter'))"

definition MoveCommand ::
  "UnitId \<Rightarrow> Position \<Rightarrow> time_point \<Rightarrow> 64 word \<Rightarrow> Command \<times> 64 word" where
  "MoveCommand target_id destination =
     Command_ctor target_id MOVE
       (JObject [(''destination'',
          JObject [(''x'', JFloat (pos_x destination)),
                   (''y'', JFloat (pos_y destination)),
                   (''z'', JFloat (pos_z destination))])])"

definition ReportCommand :: "UnitId \<Rightarrow> time_point \<Rightarrow> 64 word \<Rightarrow> Command \<times> 64 word" where
  "ReportCommand target_id = Command_ctor target_id REPORT JNull"

definition AlertCommand ::
  "UnitId \<Rightarrow> string \<Rightarrow> 32 word \<Rightarrow> time_point \<Rightarrow> 64 word \<Rightarrow> Command \<times> 64 word" where
  "AlertCommand target_id message severity =
     Command_ctor target_id ALERT
       (JObject [(''message'', JString message), (''severity'', JInt (scast severity))])"

text \<open>
  \<open>to_json\<close>: the members in the order the code assigns them; the timestamp is the tick
  count in whole milliseconds (\<open>duration_cast\<close> truncates towards zero).
\<close>

definition Command_to_json :: "Command \<Rightarrow> json" where
  "Command_to_json c =
     JObject [(''id'', JString (Command_id c)),
              (''target_id'', JString (UnitId_value (Command_target_id c))),
              (''type'', JInt (scast (Command_type c))),
              (''payload'', Command_payload c),
              (''timestamp'', JInt (word_of_int (Command_timestamp c sdiv 1000000)))]"

definition Command_from_json ::
  "json \<Rightarrow> time_point \<Rightarrow> 64 word \<Rightarrow> (fault + Command option) \<times> 64 word" where
  "Command_from_json j now counter =
     (if \<not> contains j ''target_id'' \<or> \<not> contains j ''type'' then (Inr None, counter)
      else case bind (at_const j ''target_id'') get_string of
             Inl e \<Rightarrow> (Inl e, counter)
           | Inr target_id \<Rightarrow>
        (case bind (at_const j ''type'') get_enum of
             Inl e \<Rightarrow> (Inl e, counter)
           | Inr type \<Rightarrow>
        (case value_or j ''payload'' JNull Inr of
             Inl e \<Rightarrow> (Inl e, counter)
           | Inr payload \<Rightarrow>
        (let (c, counter') = Command_ctor (UnitId target_id) type payload now counter
         in (Inr (Some c), counter')))))"

section \<open>Telemetry (domain/telemetry.cpp)\<close>

text \<open>
  Modelled from the spec: the declarations of \<open>TelemetryData\<close> and
  \<open>TelemetryReport\<close> (domain/telemetry.h is not among the sources). The fields are
  those of the spec's data model, which are the ones telemetry.cpp reads and writes.
\<close>

record TelemetryData =
  TelemetryData_unit_id :: UnitId
  TelemetryData_position :: Position
  TelemetryData_status :: UnitStatus
  TelemetryData_battery_level :: double
  TelemetryData_cpu_usage :: double
  TelemetryData_memory_usage :: double
  TelemetryData_last_command_id :: string
  TelemetryData_timestamp :: time_point

datatype TelemetryReport = TelemetryReport (data: TelemetryData)

text \<open>
  \<open>steady_clock::time_point(std::chrono::milliseconds(ms))\<close>: the count is multiplied
  by 1000000 in 64-bit signed arithmetic, where overflow is undefined.
\<close>

definition time_point_of_ms :: "64 word \<Rightarrow> fault + time_point" where
  "time_point_of_ms ms =
     (let t = sint ms * 1000000
      in if - (2 ^ 63) \<le> t \<and> t < 2 ^ 63 then Inr t else Inl undefined_behaviour)"

definition TelemetryData_from_json :: "json \<Rightarrow> time_point \<Rightarrow> fault + TelemetryData" where
  "TelemetryData_from_json j now =
     bind (bind (at_const j ''unit_id'') get_string) (\<lambda>unit_id.
     bind (at_const j ''position'') (\<lambda>pos.
     bind (bind (at_mutable pos ''x'') get_double) (\<lambda>px.
     bind (bind (at_mutable pos ''y'') get_double) (\<lambda>py.
     bind (bind (at_mutable pos ''z'') get_double) (\<lambda>pz.
     bind (bind (at_const j ''status'') get_enum) (\<lambda>status.
     bind (value_or j ''battery_level'' double_100 get_double) (\<lambda>battery_level.
     bind (value_or j ''cpu_usage'' double_0 get_double) (\<lambda>cpu_usage.
     bind (value_or j ''memory_usage'' double_0 get_double) (\<lambda>memory_usage.
     bind (value_or j ''last_command_id'' [] get_string) (\<lambda>last_command_id.
     bind (if contains j ''timestamp''
           then bind (bind (at_const j ''timestamp'') get_int64) time_point_of_ms
           else Inr now) (\<lambda>timestamp.
     Inr \<lparr>TelemetryData_unit_id = UnitId unit_id,
          TelemetryData_position = Position px py pz,
          TelemetryData_status = status,
          TelemetryData_battery_level = battery_level,
          TelemetryData_cpu_usage = cpu_usage,
          TelemetryData_memory_usage = memory_usage,
          TelemetryData_last_command_id = last_command_id,
          TelemetryData_timestamp = timestamp\<rparr>)))))))))))"

definition TelemetryReport_from_json ::
  "json \<Rightarrow> time_point \<Rightarrow> fault + TelemetryReport option" where
  "TelemetryReport_from_json j now =
     bind (value_or j ''type'' [] get_string) (\<lambda>tag.
       if tag \<noteq> ''telemetry'' \<or> \<not> contains j ''data'' then Inr None
       else bind (at_const j ''data'') (\<lambda>d.
            bind (TelemetryData_from_json d now) (\<lambda>td.
            Inr (Some (TelemetryReport td)))))"

section \<open>Wire protocol (net/protocol_handler.h, net/protocol_handler.cpp)\<close>

record ProtocolMessage =
  ProtocolMessage_type :: MessageType
  ProtocolMessage_payload :: string

definition ProtocolMessage_from_json :: "json \<Rightarrow> fault + ProtocolMessage option" where
  "ProtocolMessage_from_json j =
     (if \<not> contains j ''type'' \<or> \<not> contains j ''payload'' then Inr None
      else bind (bind (at_const j ''type'') get_enum) (\<lambda>type.
           bind (bind (at_const j ''payload'') get_string) (\<lambda>payload.
           Inr (Some \<lparr>ProtocolMessage_type = type, ProtocolMessage_payload = payload\<rparr>))))"

text \<open>
  \<open>try { ... } catch (const std::exception&) { return nullptr; }\<close>: the two JSON
  exceptions become a null pointer; undefined behaviour is not an exception.
\<close>

definition catch_exception :: "fault + 'a option \<Rightarrow> fault + 'a option" where
  "catch_exception r =
     (case r of
        Inl parse_error \<Rightarrow> Inr None
      | Inl type_error \<Rightarrow> Inr None
      | Inl undefined_behaviour \<Rightarrow> Inl undefined_behaviour
      | Inr v \<Rightarrow> Inr v)"

text \<open>
  \<open>nlohmann::json::parse\<close> is a parameter of the three decoders: it gives the document
  of a well-formed text and \<open>None\<close> where the library throws \<open>parse_error\<close>.
\<close>

definition deserialize_command ::
  "(string \<Rightarrow> json option) \<Rightarrow> string \<Rightarrow> time_point \<Rightarrow> 64 word
     \<Rightarrow> (fault + Command option) \<times> 64 word" where
  "deserialize_command parse data_text now counter =
     (case parse data_text of
        None \<Rightarrow> (catch_exception (Inl parse_error), counter)
      | Some j \<Rightarrow> (let (r, counter') = Command_from_json j now counter
                  in (catch_exception r, counter')))"

definition deserialize_telemetry ::
  "(string \<Rightarrow> json option) \<Rightarrow> string \<Rightarrow> time_point \<Rightarrow> fault + TelemetryReport option" where
  "deserialize_telemetry parse data_text now =
     (case parse data_text of
        None \<Rightarrow> catch_exception (Inl parse_error)
      | Some j \<Rightarrow> catch_exception (TelemetryReport_from_json j now))"

definition deserialize_message ::
  "(string \<Rightarrow> json option) \<Rightarrow> string \<Rightarrow> fault + ProtocolMessage option" where
  "deserialize_message parse data_text =
     (case parse data_text of
        None \<Rightarrow> catch_exception (Inl parse_error)
      | Some j \<Rightarrow> catch_exception (ProtocolMessage_from_json j))"

section \<open>Dispatch strategies and the command queue (core/strategy.h, core/strategy.cpp)\<close>

text \<open>
  The round-robin cursor \<open>current_index_\<close> is a \<open>std::atomic<size_t>\<close>, 64 bits wide;
  \<open>fetch_add(1)\<close> gives the old value and wraps.
\<close>

definition RoundRobinStrategy_select_targets ::
  "UnitId list \<Rightarrow> Command \<Rightarrow> 64 word \<Rightarrow> UnitId list \<times> 64 word" where
  "RoundRobinStrategy_select_targets available_units command current_index =
     (if available_units = [] then ([], current_index)
      else if Command_type command = MOVE then
        ([available_units ! (unat current_index mod length available_units)],
         current_index + 1)
      else if Command_type command = REPORT then (available_units, current_index)
      else
        ([available_units ! (unat current_index mod length available_units)],
         current_index + 1))"

text \<open>
  \<open>std::sort\<close> with a comparator, modelled by insertion sort. The order that
  \<open>std::sort\<close> gives to elements the comparator does not separate is unspecified; the
  model keeps them in their input order.
\<close>

fun sort_insert :: "('a \<Rightarrow> 'a \<Rightarrow> bool) \<Rightarrow> 'a \<Rightarrow> 'a list \<Rightarrow> 'a list" where
  "sort_insert cmp v [] = [v]"
| "sort_insert cmp v (u # us) =
     (if cmp u v then u # sort_insert cmp v us else v # u # us)"

fun std_sort :: "('a \<Rightarrow> 'a \<Rightarrow> bool) \<Rightarrow> 'a list \<Rightarrow> 'a list" where
  "std_sort cmp [] = []"
| "std_sort cmp (v # vs) = sort_insert cmp v (std_sort cmp vs)"

text \<open>\<open>unit_priorities_\<close> is an unordered map from unit ids to \<open>int\<close> priorities.\<close>

definition set_unit_priority ::
  "UnitId \<Rightarrow> int \<Rightarrow> (UnitId \<rightharpoonup> int) \<Rightarrow> (UnitId \<rightharpoonup> int)" where
  "set_unit_priority unit_id priority unit_priorities = unit_priorities(unit_id \<mapsto> priority)"

definition get_priority_or_default :: "(UnitId \<rightharpoonup> int) \<Rightarrow> UnitId \<Rightarrow> int" where
  "get_priority_or_default unit_priorities unit_id =
     (case unit_priorities unit_id of Some p \<Rightarrow> p | None \<Rightarrow> 0)"

definition PriorityStrategy_select_targets ::
  "(UnitId \<rightharpoonup> int) \<Rightarrow> UnitId list \<Rightarrow> Command \<Rightarrow> UnitId list" where
  "PriorityStrategy_select_targets unit_priorities available_units command =
     (if available_units = [] then []
      else let sorted_units =
                 std_sort (\<lambda>a b. get_priority_or_default unit_priorities a
                                  > get_priority_or_default unit_priorities b)
                          available_units
           in if Command_type command = MOVE then [sorted_units ! 0]
              else if Command_type command = REPORT then
                take (min 3 (length sorted_units)) sorted_units
              else [sorted_units ! 0])"

record CommandEntry =
  CommandEntry_command :: Command
  CommandEntry_priority :: int
  CommandEntry_timestamp :: time_point

text \<open>\<open>CommandEntry::operator<\<close>.\<close>

definition CommandEntry_less :: "CommandEntry \<Rightarrow> CommandEntry \<Rightarrow> bool" where
  "CommandEntry_less a b =
     (if CommandEntry_priority a \<noteq> CommandEntry_priority b
      then CommandEntry_priority a < CommandEntry_priority b
      else CommandEntry_timestamp a > CommandEntry_timestamp b)"

text \<open>
  The queue is a \<open>std::priority_queue<CommandEntry>\<close>, modelled by the list of its
  entries; \<open>top()\<close> is an entry that is not less than any other, here the first such
  entry of the list.
\<close>

type_synonym CommandQueue = "CommandEntry list"

fun queue_top :: "CommandEntry \<Rightarrow> CommandEntry list \<Rightarrow> CommandEntry" where
  "queue_top best [] = best"
| "queue_top best (e # es) = queue_top (if CommandEntry_less best e then e else best) es"

definition enqueue :: "Command \<Rightarrow> int \<Rightarrow> time_point \<Rightarrow> CommandQueue \<Rightarrow> CommandQueue" where
  "enqueue command priority now queue =
     queue @ [\<lparr>CommandEntry_command = command, CommandEntry_priority = priority,
               CommandEntry_timestamp = now\<rparr>]"

definition dequeue :: "CommandQueue \<Rightarrow> Command option \<times> CommandQueue" where
  "dequeue queue =
     (case queue of
        [] \<Rightarrow> (None, queue)
      | e # es \<Rightarrow> (let entry = queue_top e es
                   in (Some (CommandEntry_command entry), remove1 entry queue)))"

section \<open>Unit registry (core/registry.h, core/registry.cpp)\<close>

text \<open>
  The registry maps unit ids to shared pointers; the units live in a store of objects,
  addressed by number. \<open>Logger::info\<close> lines are collected in order.
\<close>

record UnitRegistry =
  UnitRegistry_units :: "UnitId \<rightharpoonup> nat"
  UnitRegistry_store :: "nat \<Rightarrow> Unit"
  UnitRegistry_log :: "string list"

definition register_unit :: "nat \<Rightarrow> UnitRegistry \<Rightarrow> UnitRegistry" where
  "register_unit unit r =
     (let unit_id = Unit_id (UnitRegistry_store r unit)
      in r\<lparr>UnitRegistry_units := (UnitRegistry_units r)(unit_id \<mapsto> unit),
            UnitRegistry_log :=
              UnitRegistry_log r @ [''Unit registered: '' @ UnitId_value unit_id]\<rparr>)"

definition unregister_unit :: "UnitId \<Rightarrow> UnitRegistry \<Rightarrow> UnitRegistry" where
  "unregister_unit unit_id r =
     (case UnitRegistry_units r unit_id of
        Some unit \<Rightarrow>
          r\<lparr>UnitRegistry_units := (UnitRegistry_units r)(unit_id := None),
            UnitRegistry_log :=
              UnitRegistry_log r @ [''Unit unregistered: '' @ UnitId_value unit_id]\<rparr>
      | None \<Rightarrow> r)"

definition get_unit :: "UnitId \<Rightarrow> UnitRegistry \<Rightarrow> nat option" where
  "get_unit unit_id r = UnitRegistry_units r unit_id"

definition update_unit_status ::
  "UnitId \<Rightarrow> UnitStatus \<Rightarrow> time_point \<Rightarrow> UnitRegistry \<Rightarrow> UnitRegistry" where
  "update_unit_status unit_id status now r =
     (case get_unit unit_id r of
        Some unit \<Rightarrow>
          r\<lparr>UnitRegistry_store :=
              (UnitRegistry_store r)(unit := set_status status now (UnitRegistry_store r unit))\<rparr>
      | None \<Rightarrow> r)"

definition update_unit_position ::
  "UnitId \<Rightarrow> Position \<Rightarrow> time_point \<Rightarrow> UnitRegistry \<Rightarrow> UnitRegistry" where
  "update_unit_position unit_id position now r =
     (case get_unit unit_id r of
        Some unit \<Rightarrow>
          r\<lparr>UnitRegistry_store :=
              (UnitRegistry_store r)(unit := set_position position now (UnitRegistry_store r unit))\<rparr>
      | None \<Rightarrow> r)"

section \<open>Observer bus (core/observer.h)\<close>

text \<open>
  \<open>observers_\<close> is a set of weak pointers keyed by their owner; an owner is a number,
  \<open>alive\<close> tells whether its object still exists, and \<open>calls\<close> records, per observer,
  the reports its \<open>on_telemetry_received\<close> was invoked with.
\<close>

record TelemetryObservable =
  observers :: "nat list"
  calls :: "nat \<Rightarrow> TelemetryReport list"

definition add_observer :: "nat \<Rightarrow> TelemetryObservable \<Rightarrow> TelemetryObservable" where
  "add_observer observer b =
     (if observer \<in> set (observers b) then b
      else b\<lparr>observers := observers b @ [observer]\<rparr>)"

definition remove_observer :: "nat \<Rightarrow> TelemetryObservable \<Rightarrow> TelemetryObservable" where
  "remove_observer observer b = b\<lparr>observers := removeAll observer (observers b)\<rparr>"

definition notify_telemetry ::
  "TelemetryReport \<Rightarrow> (nat \<Rightarrow> bool) \<Rightarrow> TelemetryObservable \<Rightarrow> TelemetryObservable" where
  "notify_telemetry report alive b =
     b\<lparr>calls := fold (\<lambda>observer cs. if alive observer
                                      then cs(observer := cs observer @ [report])
                                      else cs)
                     (observers b) (calls b)\<rparr>"

section \<open>Concrete inputs used by the examples\<close>

definition unit_001 :: UnitId where "unit_001 = UnitId ''unit_001''"
definition unit_002 :: UnitId where "unit_002 = UnitId ''unit_002''"
definition unit_003 :: UnitId where "unit_003 = UnitId ''unit_003''"
definition unit_004 :: UnitId where "unit_004 = UnitId ''unit_004''"

lemmas unit_defs = unit_001_def unit_002_def unit_003_def unit_004_def

definition move_cmd :: Command where
  "move_cmd = fst (MoveCommand unit_001 (Position 0 0 0) 0 0)"

definition report_cmd :: Command where
  "report_cmd = fst (ReportCommand unit_003 0 1)"

definition alert_cmd :: Command where
  "alert_cmd = fst (AlertCommand unit_002 ''Alert message'' 1 0 2)"

definition test_priorities :: "UnitId \<rightharpoonup> int" where
  "test_priorities =
     set_unit_priority unit_004 8 (set_unit_priority unit_003 1
       (set_unit_priority unit_002 5 (set_unit_priority unit_001 10 Map.empty)))"

text \<open>
  The telemetry data document of the wire format: the three required members, and the
  five optional ones.
\<close>

definition required_fields ::
  "string \<Rightarrow> double \<Rightarrow> double \<Rightarrow> double \<Rightarrow> json \<Rightarrow> (string \<times> json) list" where
  "required_fields u px py pz st =
     [(''unit_id'', JString u),
      (''position'', JObject [(''x'', JFloat px), (''y'', JFloat py), (''z'', JFloat pz)]),
      (''status'', st)]"


text \<open>A parser that knows one text and its document.\<close>

definition parse_only :: "string \<Rightarrow> json \<Rightarrow> string \<Rightarrow> json option" where
  "parse_only text doc s = (if s = text then Some doc else None)"

definition telemetry_without_fields :: string where
  \<open>telemetry_without_fields = ''{"type":"telemetry","data":{}}''\<close>

definition test_unit :: Unit where
  "test_unit = \<lparr>Unit_id = unit_001, Unit_position = Position 0 0 0,
                Unit_status = UnitStatus_IDLE, Unit_last_update = 5\<rparr>"

definition test_registry :: UnitRegistry where
  "test_registry =
     register_unit 0 \<lparr>UnitRegistry_units = Map.empty, UnitRegistry_store = (\<lambda>_. test_unit),
                      UnitRegistry_log = []\<rparr>"

definition test_report :: TelemetryReport where
  "test_report = TelemetryReport
     \<lparr>TelemetryData_unit_id = unit_001, TelemetryData_position = Position 0 0 0,
      TelemetryData_status = UnitStatus_IDLE, TelemetryData_battery_level = double_100,
      TelemetryData_cpu_usage = double_0, TelemetryData_memory_usage = double_0,
      TelemetryData_last_command_id = [], TelemetryData_timestamp = 0\<rparr>"

definition test_bus :: TelemetryObservable where
  "test_bus = add_observer 2 (add_observer 1 \<lparr>observers = [], calls = (\<lambda>_. [])\<rparr>)"

text \<open>Reading decimal digits back; \<open>to_string\<close> has it as a left inverse.\<close>

definition of_digits :: "string \<Rightarrow> nat" where
  "of_digits s = foldl (\<lambda>a ch. 10 * a + (of_char ch - 48)) 0 s"


section \<open>Auxiliary facts\<close>

lemma MOVE_neq_REPORT: "MOVE \<noteq> REPORT"
  by (simp add: MOVE_def REPORT_def)

lemma REPORT_neq_MOVE: "REPORT \<noteq> MOVE"
  by (simp add: MOVE_def REPORT_def)

lemma move_cmd_type: "Command_type move_cmd = MOVE"
  by (simp add: move_cmd_def MoveCommand_def Command_ctor_def generate_id_def)

lemma report_cmd_type: "Command_type report_cmd = REPORT"
  by (simp add: report_cmd_def ReportCommand_def Command_ctor_def generate_id_def)

lemma alert_cmd_type: "Command_type alert_cmd = ALERT"
  by (simp add: alert_cmd_def AlertCommand_def Command_ctor_def generate_id_def)

subsection \<open>The sort\<close>

lemma mset_sort_insert: "mset (sort_insert cmp v us) = add_mset v (mset us)"
  by (induction us) simp_all

lemma mset_std_sort: "mset (std_sort cmp us) = mset us"
  by (induction us) (simp_all add: mset_sort_insert)

lemma set_sort_insert: "set (sort_insert cmp v us) = insert v (set us)"
  by (induction us) auto

lemma length_std_sort: "length (std_sort cmp us) = length us"
  using mset_std_sort [of cmp us] by (metis size_mset)

lemma sorted_sort_insert:
  fixes f :: "'a \<Rightarrow> int"
  assumes "sorted_wrt (\<lambda>a b. f b \<le> f a) us"
  shows "sorted_wrt (\<lambda>a b. f b \<le> f a) (sort_insert (\<lambda>a b. f a > f b) v us)"
  using assms
proof (induction us)
  case Nil
  then show ?case by simp
next
  case (Cons u us)
  show ?case
  proof (cases "f u > f v")
    case True
    with Cons show ?thesis by (auto simp: set_sort_insert)
  next
    case False
    with Cons show ?thesis by fastforce
  qed
qed

lemma sorted_std_sort:
  fixes f :: "'a \<Rightarrow> int"
  shows "sorted_wrt (\<lambda>a b. f b \<le> f a) (std_sort (\<lambda>a b. f a > f b) us)"
  by (induction us) (simp_all add: sorted_sort_insert)

lemma get_priority_set:
  "get_priority_or_default (set_unit_priority u p m) u' =
     (if u' = u then p else get_priority_or_default m u')"
  by (simp add: get_priority_or_default_def set_unit_priority_def)

subsection \<open>The top of the queue\<close>

lemma queue_top_mem: "queue_top best es \<in> set (best # es)"
  by (induction es arbitrary: best) auto

lemma queue_top_max:
  "e' \<in> set (best # es) \<Longrightarrow>
   CommandEntry_priority e' < CommandEntry_priority (queue_top best es) \<or>
   (CommandEntry_priority e' = CommandEntry_priority (queue_top best es) \<and>
    CommandEntry_timestamp (queue_top best es) \<le> CommandEntry_timestamp e')"
proof (induction es arbitrary: best e')
  case Nil
  then show ?case by simp
next
  case (Cons e es)
  let ?b = "if CommandEntry_less best e then e else best"
  have top: "queue_top best (e # es) = queue_top ?b es" by simp
  have b: "CommandEntry_priority ?b < CommandEntry_priority (queue_top ?b es) \<or>
   (CommandEntry_priority ?b = CommandEntry_priority (queue_top ?b es) \<and>
    CommandEntry_timestamp (queue_top ?b es) \<le> CommandEntry_timestamp ?b)"
    by (rule Cons.IH) simp
  consider "e' = best" | "e' = e" | "e' \<in> set es"
    using Cons.prems by auto
  then show ?case
  proof cases
    case 1
    with b show ?thesis
      unfolding top by (auto simp: CommandEntry_less_def split: if_splits)
  next
    case 2
    with b show ?thesis
      unfolding top by (auto simp: CommandEntry_less_def split: if_splits)
  next
    case 3
    then have "e' \<in> set (?b # es)" by simp
    from Cons.IH [OF this] show ?thesis unfolding top .
  qed
qed

subsection \<open>Outcomes, casts and identifiers\<close>

lemma bind_Inr [simp]: "bind (Inr v) f = f v"
  by (simp add: bind_def)

lemma bind_Inl [simp]: "bind (Inl e) f = Inl e"
  by (simp add: bind_def)

lemmas json_access_defs = contains_def at_const_def at_mutable_def get_string_def
  get_double_def get_enum_def get_int64_def value_or_def

lemma top_bit_100: "top_bit 100 = 6"
  by (simp add: top_bit.simps)

lemma int_to_double_100: "int_to_double 100 = double_100"
  by (simp add: int_to_double_def double_100_def top_bit_100 Let_def)

lemma double_to_int32_examples:
  "double_to_int32 double_100 = Inr 100"
  "double_to_int32 0x400C000000000000 = Inr 3"
  "double_to_int32 0x41E0000000000000 = Inl undefined_behaviour"
  by (simp_all add: double_to_int32_def double_trunc_def double_exp_def double_frac_def
      double_100_def Let_def drop_bit_eq_div)

lemma ucast_scast_enum: "ucast (scast (w :: 32 word) :: 64 word) = w"
  by (rule bit_word_eqI) (auto simp: bit_word_ucast_iff bit_word_scast_iff)



lemma of_digits_to_string: "of_digits (to_string n) = n"
proof (induction n rule: to_string.induct)
  case (1 n)
  show ?case
  proof (cases "n < 10")
    case True
    then show ?thesis
      by (subst to_string.simps) (simp add: of_digits_def)
  next
    case False
    have "n mod 10 < 10" by simp
    then have d: "of_char (char_of (48 + n mod 10)) = 48 + n mod 10"
      by simp
    from False 1 have "of_digits (to_string (n div 10)) = n div 10" by simp
    with False d show ?thesis
      by (subst to_string.simps) (simp add: of_digits_def)
  qed
qed

lemma to_string_inj: "to_string a = to_string b \<Longrightarrow> a = b"
  by (metis of_digits_to_string)

lemma generate_id_inj: "fst (generate_id a) = fst (generate_id b) \<Longrightarrow> a = b"
  by (auto simp: generate_id_def word_unat_eq_iff dest: to_string_inj)

lemma to_string_5: "to_string 5 = ''5''"
  by code_simp

lemma move_cmd_id: "Command_id move_cmd = ''cmd_0''"
  by code_simp

lemma counter_not_back:
  assumes "n < 2 ^ 64 - 1"
  shows "(k0 :: 64 word) + 1 + of_nat n \<noteq> k0"
proof
  assume "k0 + 1 + of_nat n = k0"
  then have "(of_nat (Suc n) :: 64 word) = 0"
    by (simp add: add.assoc)
  then have "2 ^ 64 dvd Suc n"
    by (simp only: word_of_nat_eq_0_iff) simp
  then have "2 ^ 64 \<le> Suc n"
    by (rule dvd_imp_le) simp
  with assms show False by simp
qed

subsection \<open>Decoding commands\<close>

lemma Command_round_trip:
  "Command_from_json (Command_to_json c) now counter =
     (Inr (Some (c\<lparr>Command_id := fst (generate_id counter), Command_timestamp := now\<rparr>)),
      counter + 1)"
  by (simp add: Command_from_json_def Command_to_json_def contains_def at_const_def
      get_string_def get_enum_def value_or_def Command_ctor_def generate_id_def
      ucast_scast_enum)

lemma Command_from_json_ignores_id:
  "Command_from_json (JObject ((''id'', v) # (''timestamp'', w) # kvs)) now k =
   Command_from_json (JObject kvs) now k"
proof -
  let ?j = "JObject ((''id'', v) # (''timestamp'', w) # kvs)"
  have eqs: "contains ?j ''target_id'' = contains (JObject kvs) ''target_id''"
    "contains ?j ''type'' = contains (JObject kvs) ''type''"
    "at_const ?j ''target_id'' = at_const (JObject kvs) ''target_id''"
    "at_const ?j ''type'' = at_const (JObject kvs) ''type''"
    "value_or ?j ''payload'' JNull Inr = value_or (JObject kvs) ''payload'' JNull Inr"
    by (simp_all add: contains_def at_const_def value_or_def)
  show ?thesis
    unfolding Command_from_json_def eqs by (rule refl)
qed

lemma Command_from_json_fresh:
  assumes "Command_from_json j now k = (Inr (Some c), k')"
  shows "Command_id c = ''cmd_'' @ to_string (unat k) \<and> Command_timestamp c = now \<and> k' = k + 1"
  using assms
  by (auto simp: Command_from_json_def Command_ctor_def generate_id_def
      split: if_splits sum.splits)

subsection \<open>Decoding telemetry\<close>

lemma TelemetryData_required:
  "TelemetryData_from_json (JObject (required_fields u px py pz (JInt n))) now =
     Inr \<lparr>TelemetryData_unit_id = UnitId u, TelemetryData_position = Position px py pz,
          TelemetryData_status = ucast n, TelemetryData_battery_level = double_100,
          TelemetryData_cpu_usage = double_0, TelemetryData_memory_usage = double_0,
          TelemetryData_last_command_id = [], TelemetryData_timestamp = now\<rparr>"
  by (simp add: TelemetryData_from_json_def required_fields_def json_access_defs)

lemma TelemetryData_required_unsigned:
  "TelemetryData_from_json (JObject (required_fields u px py pz (JUInt n))) now =
     Inr \<lparr>TelemetryData_unit_id = UnitId u, TelemetryData_position = Position px py pz,
          TelemetryData_status = ucast n, TelemetryData_battery_level = double_100,
          TelemetryData_cpu_usage = double_0, TelemetryData_memory_usage = double_0,
          TelemetryData_last_command_id = [], TelemetryData_timestamp = now\<rparr>"
  by (simp add: TelemetryData_from_json_def required_fields_def json_access_defs)









subsection \<open>Notifying observers\<close>

lemma fold_notify_other:
  "p \<notin> set os \<Longrightarrow>
   fold (\<lambda>observer cs. if alive observer then cs(observer := cs observer @ [report]) else cs)
     os cs p = cs p"
  by (induction os arbitrary: cs) auto

lemma fold_notify_distinct:
  "distinct os \<Longrightarrow>
   fold (\<lambda>observer cs. if alive observer then cs(observer := cs observer @ [report]) else cs)
     os cs p = (if p \<in> set os \<and> alive p then cs p @ [report] else cs p)"
proof (induction os arbitrary: cs)
  case Nil
  then show ?case by simp
next
  case (Cons a os)
  then show ?case
    by (auto simp: fold_notify_other)
qed

lemma distinct_add_observer:
  "distinct (observers b) \<Longrightarrow> distinct (observers (add_observer p b))"
  by (simp add: add_observer_def)

lemma distinct_remove_observer:
  "distinct (observers b) \<Longrightarrow> distinct (observers (remove_observer p b))"
  by (simp add: remove_observer_def distinct_removeAll)

section \<open>The command queue\<close>

text \<open>
  C1. \<open>dequeue\<close> on an empty queue returns no command and leaves the queue empty. On a
  non-empty queue it returns the command of one entry of the queue and removes that entry;
  no entry of the queue has a higher priority, and no entry of the same priority has an
  earlier enqueue timestamp. After enqueuing a command \<open>m\<close> at priority 1, \<open>a\<close> at
  priority 10 and \<open>r\<close> at priority 5, in that order and at any times, three dequeues
  return \<open>a\<close>, \<open>r\<close>, \<open>m\<close> and a fourth returns nothing.
\<close>

theorem dequeue_highest_priority:
  "dequeue [] = (None, []) \<and>
   (q \<noteq> [] \<longrightarrow>
     (\<exists>entry \<in> set q.
        dequeue q = (Some (CommandEntry_command entry), remove1 entry q) \<and>
        (\<forall>e' \<in> set q.
           CommandEntry_priority e' \<le> CommandEntry_priority entry \<and>
           (CommandEntry_priority e' = CommandEntry_priority entry \<longrightarrow>
              CommandEntry_timestamp entry \<le> CommandEntry_timestamp e')))) \<and>
   (let q3 = enqueue r 5 t3 (enqueue a 10 t2 (enqueue m 1 t1 []));
        (c1, q2) = dequeue q3; (c2, q1) = dequeue q2; (c3, q0) = dequeue q1
    in c1 = Some a \<and> c2 = Some r \<and> c3 = Some m \<and> q0 = [] \<and> fst (dequeue q0) = None)"
proof -
  have empty: "dequeue [] = (None, [])"
    by (simp add: dequeue_def)
  have general: "q \<noteq> [] \<longrightarrow>
     (\<exists>entry \<in> set q.
        dequeue q = (Some (CommandEntry_command entry), remove1 entry q) \<and>
        (\<forall>e' \<in> set q.
           CommandEntry_priority e' \<le> CommandEntry_priority entry \<and>
           (CommandEntry_priority e' = CommandEntry_priority entry \<longrightarrow>
              CommandEntry_timestamp entry \<le> CommandEntry_timestamp e')))"
  proof
    assume "q \<noteq> []"
    then obtain e es where q: "q = e # es" by (cases q) auto
    let ?t = "queue_top e es"
    have "?t \<in> set q" unfolding q by (rule queue_top_mem)
    moreover have "dequeue q = (Some (CommandEntry_command ?t), remove1 ?t q)"
      unfolding q by (simp add: dequeue_def Let_def)
    moreover have "\<forall>e' \<in> set q.
           CommandEntry_priority e' \<le> CommandEntry_priority ?t \<and>
           (CommandEntry_priority e' = CommandEntry_priority ?t \<longrightarrow>
              CommandEntry_timestamp ?t \<le> CommandEntry_timestamp e')"
      unfolding q using queue_top_max [of _ e es] by fastforce
    ultimately show "\<exists>entry \<in> set q.
        dequeue q = (Some (CommandEntry_command entry), remove1 entry q) \<and>
        (\<forall>e' \<in> set q.
           CommandEntry_priority e' \<le> CommandEntry_priority entry \<and>
           (CommandEntry_priority e' = CommandEntry_priority entry \<longrightarrow>
              CommandEntry_timestamp entry \<le> CommandEntry_timestamp e'))"
      by blast
  qed
  have scenario: "(let q3 = enqueue r 5 t3 (enqueue a 10 t2 (enqueue m 1 t1 []));
        (c1, q2) = dequeue q3; (c2, q1) = dequeue q2; (c3, q0) = dequeue q1
    in c1 = Some a \<and> c2 = Some r \<and> c3 = Some m \<and> q0 = [] \<and> fst (dequeue q0) = None)"
    by (simp add: enqueue_def dequeue_def CommandEntry_less_def Let_def)
  from empty general scenario show ?thesis by blast
qed

theorem dequeue_highest_priority_witness:
  "enqueue alert_cmd 10 8 (enqueue report_cmd 10 7 (enqueue move_cmd 1 6 [])) \<noteq> [] \<and>
   dequeue (enqueue alert_cmd 10 8 (enqueue report_cmd 10 7 (enqueue move_cmd 1 6 [])))
     = (Some report_cmd, enqueue alert_cmd 10 8 (enqueue move_cmd 1 6 []))"
  using dequeue_highest_priority
    [of "enqueue alert_cmd 10 8 (enqueue report_cmd 10 7 (enqueue move_cmd 1 6 []))"]
  by (simp add: enqueue_def dequeue_def CommandEntry_less_def)

section \<open>Dispatch strategies\<close>

text \<open>
  C2. Round-robin selection: an empty list of units gives an empty result and the same
  cursor. On a non-empty list a REPORT command gives the whole list and the same cursor;
  a command of any other type (MOVE among them) gives the one unit at index cursor mod
  count, an index inside the list, and the cursor plus one.
\<close>

theorem round_robin_select_targets:
  "RoundRobinStrategy_select_targets [] c cur = ([], cur) \<and>
   (us \<noteq> [] \<longrightarrow>
      (Command_type c = REPORT \<longrightarrow> RoundRobinStrategy_select_targets us c cur = (us, cur)) \<and>
      (Command_type c \<noteq> REPORT \<longrightarrow>
         RoundRobinStrategy_select_targets us c cur
           = ([us ! (unat cur mod length us)], cur + 1) \<and>
         unat cur mod length us < length us))"
  by (simp add: RoundRobinStrategy_select_targets_def MOVE_neq_REPORT)

theorem round_robin_select_targets_witness:
  "[unit_001, unit_002, unit_003] \<noteq> [] \<and> Command_type report_cmd = REPORT \<and>
   RoundRobinStrategy_select_targets [unit_001, unit_002, unit_003] report_cmd 7
     = ([unit_001, unit_002, unit_003], 7) \<and>
   Command_type move_cmd \<noteq> REPORT \<and>
   RoundRobinStrategy_select_targets [unit_001, unit_002, unit_003] move_cmd 7
     = ([unit_002], 8)"
  using round_robin_select_targets [of report_cmd 7 "[unit_001, unit_002, unit_003]"]
        round_robin_select_targets [of move_cmd 7 "[unit_001, unit_002, unit_003]"]
  by (simp add: move_cmd_type report_cmd_type MOVE_neq_REPORT)

text \<open>
  C3. Priority selection: a unit with no entry in the priority map (never assigned one)
  has priority 0, a unit with an entry has the value of the entry, and
  \<open>set_unit_priority\<close> writes the entry of its unit and no other. An empty list of
  units gives an empty result. On a non-empty
  list there is a rearrangement of the units in descending order of priority such that a
  REPORT command gives its first min(3, count) units and a command of any other type
  (MOVE among them) gives its first unit alone. With priorities unit_001 = 10,
  unit_002 = 5, unit_003 = 1 and unit_004 = 8, a MOVE over the first three units gives
  [unit_001] and a REPORT over all four gives [unit_001, unit_004, unit_002].
\<close>

theorem priority_select_targets:
  "PriorityStrategy_select_targets m [] c = [] \<and>
   get_priority_or_default Map.empty u = 0 \<and>
   get_priority_or_default (set_unit_priority u p m) u = p \<and>
   (m u = None \<longrightarrow> get_priority_or_default m u = 0) \<and>
   (m u = Some p \<longrightarrow> get_priority_or_default m u = p) \<and>
   set_unit_priority u p m u' = (if u' = u then Some p else m u') \<and>
   (us \<noteq> [] \<longrightarrow>
     (\<exists>sorted_units.
        mset sorted_units = mset us \<and>
        sorted_wrt (\<lambda>a b. get_priority_or_default m b \<le> get_priority_or_default m a)
          sorted_units \<and>
        (Command_type c = REPORT \<longrightarrow>
           PriorityStrategy_select_targets m us c = take (min 3 (length us)) sorted_units) \<and>
        (Command_type c \<noteq> REPORT \<longrightarrow>
           PriorityStrategy_select_targets m us c = [hd sorted_units]))) \<and>
   PriorityStrategy_select_targets test_priorities [unit_002, unit_001, unit_003] move_cmd
     = [unit_001] \<and>
   PriorityStrategy_select_targets test_priorities
     [unit_002, unit_001, unit_003, unit_004] report_cmd = [unit_001, unit_004, unit_002]"
proof -
  have pinned: "(m u = None \<longrightarrow> get_priority_or_default m u = 0) \<and>
   (m u = Some p \<longrightarrow> get_priority_or_default m u = p) \<and>
   set_unit_priority u p m u' = (if u' = u then Some p else m u')"
    by (simp add: get_priority_or_default_def set_unit_priority_def)
  let ?cmp = "\<lambda>a b. get_priority_or_default m a > get_priority_or_default m b"
  let ?s = "std_sort ?cmp us"
  have general: "us \<noteq> [] \<longrightarrow>
     (\<exists>sorted_units.
        mset sorted_units = mset us \<and>
        sorted_wrt (\<lambda>a b. get_priority_or_default m b \<le> get_priority_or_default m a)
          sorted_units \<and>
        (Command_type c = REPORT \<longrightarrow>
           PriorityStrategy_select_targets m us c = take (min 3 (length us)) sorted_units) \<and>
        (Command_type c \<noteq> REPORT \<longrightarrow>
           PriorityStrategy_select_targets m us c = [hd sorted_units]))"
  proof
    assume ne: "us \<noteq> []"
    then have "?s \<noteq> []"
      using length_std_sort [of ?cmp us] by auto
    then have hd: "?s ! 0 = hd ?s"
      by (simp add: hd_conv_nth)
    have "mset ?s = mset us"
      by (rule mset_std_sort)
    moreover have
      "sorted_wrt (\<lambda>a b. get_priority_or_default m b \<le> get_priority_or_default m a) ?s"
      by (rule sorted_std_sort)
    moreover have "Command_type c = REPORT \<longrightarrow>
           PriorityStrategy_select_targets m us c = take (min 3 (length us)) ?s"
      using ne
      by (simp add: PriorityStrategy_select_targets_def REPORT_neq_MOVE length_std_sort Let_def)
    moreover have "Command_type c \<noteq> REPORT \<longrightarrow>
           PriorityStrategy_select_targets m us c = [hd ?s]"
      using ne hd by (simp add: PriorityStrategy_select_targets_def Let_def)
    ultimately show "\<exists>sorted_units.
        mset sorted_units = mset us \<and>
        sorted_wrt (\<lambda>a b. get_priority_or_default m b \<le> get_priority_or_default m a)
          sorted_units \<and>
        (Command_type c = REPORT \<longrightarrow>
           PriorityStrategy_select_targets m us c = take (min 3 (length us)) sorted_units) \<and>
        (Command_type c \<noteq> REPORT \<longrightarrow>
           PriorityStrategy_select_targets m us c = [hd sorted_units])"
      by blast
  qed
  have ex1:
    "PriorityStrategy_select_targets test_priorities [unit_002, unit_001, unit_003] move_cmd
       = [unit_001]"
    by (simp add: PriorityStrategy_select_targets_def move_cmd_type test_priorities_def
        get_priority_set unit_defs)
  have ex2: "PriorityStrategy_select_targets test_priorities
     [unit_002, unit_001, unit_003, unit_004] report_cmd = [unit_001, unit_004, unit_002]"
    by (simp add: PriorityStrategy_select_targets_def report_cmd_type REPORT_neq_MOVE
        test_priorities_def get_priority_set unit_defs)
  have first: "PriorityStrategy_select_targets m [] c = [] \<and>
   get_priority_or_default Map.empty u = 0 \<and>
   get_priority_or_default (set_unit_priority u p m) u = p"
    by (simp add: get_priority_set)
       (simp add: get_priority_or_default_def PriorityStrategy_select_targets_def)
  from first pinned general ex1 ex2 show ?thesis
    by blast
qed

theorem priority_select_targets_witness:
  "test_priorities (UnitId ''unit_009'') = None \<and>
   get_priority_or_default test_priorities (UnitId ''unit_009'') = 0 \<and>
   test_priorities unit_004 = Some 8 \<and>
   get_priority_or_default test_priorities unit_004 = 8 \<and>
   [unit_003, unit_004] \<noteq> [] \<and> Command_type report_cmd = REPORT \<and>
   PriorityStrategy_select_targets test_priorities [unit_003, unit_004] report_cmd
     = [unit_004, unit_003] \<and>
   Command_type alert_cmd \<noteq> REPORT \<and>
   PriorityStrategy_select_targets test_priorities [unit_003, unit_004] alert_cmd
     = [unit_004]"
proof -
  have absent: "test_priorities (UnitId ''unit_009'') = None"
    by (simp add: test_priorities_def set_unit_priority_def unit_defs)
  have present: "test_priorities unit_004 = Some 8"
    by (simp add: test_priorities_def set_unit_priority_def unit_defs)
  have selected: "[unit_003, unit_004] \<noteq> [] \<and> Command_type report_cmd = REPORT \<and>
   PriorityStrategy_select_targets test_priorities [unit_003, unit_004] report_cmd
     = [unit_004, unit_003] \<and>
   Command_type alert_cmd \<noteq> REPORT \<and>
   PriorityStrategy_select_targets test_priorities [unit_003, unit_004] alert_cmd
     = [unit_004]"
    by (simp add: PriorityStrategy_select_targets_def report_cmd_type alert_cmd_type
        CommandType_defs test_priorities_def get_priority_set unit_defs)
  from priority_select_targets [where m = test_priorities and c = report_cmd
          and us = "[unit_003, unit_004]" and u = "UnitId ''unit_009''" and p = 8
          and u' = unit_004]
       priority_select_targets [where m = test_priorities and c = alert_cmd
          and us = "[unit_003, unit_004]" and u = unit_004 and p = 8 and u' = unit_004]
       absent present selected
  show ?thesis by blast
qed

section \<open>Commands on the wire\<close>

text \<open>
  C4. Decoding the encoding of any command succeeds and yields the same command except
  for a newly generated id and creation time; so target_id, type and payload are those of
  the original. For a command built by the Move, Report or Alert constructor the decoded
  command is spelled out. A document without a "target_id" member or without a "type"
  member decodes to no value, and the counter stays as it was.
\<close>

theorem command_json_round_trip:
  "Command_from_json (Command_to_json c) now counter =
     (Inr (Some (c\<lparr>Command_id := ''cmd_'' @ to_string (unat counter),
                   Command_timestamp := now\<rparr>)), counter + 1) \<and>
   fst (Command_from_json
         (Command_to_json (fst (MoveCommand target dest t0 k0))) now counter) =
     Inr (Some \<lparr>Command_id = ''cmd_'' @ to_string (unat counter),
               Command_target_id = target, Command_type = MOVE,
               Command_payload =
                 JObject [(''destination'',
                   JObject [(''x'', JFloat (pos_x dest)), (''y'', JFloat (pos_y dest)),
                            (''z'', JFloat (pos_z dest))])],
               Command_timestamp = now\<rparr>) \<and>
   fst (Command_from_json
         (Command_to_json (fst (ReportCommand target t0 k0))) now counter) =
     Inr (Some \<lparr>Command_id = ''cmd_'' @ to_string (unat counter),
               Command_target_id = target, Command_type = REPORT,
               Command_payload = JNull, Command_timestamp = now\<rparr>) \<and>
   fst (Command_from_json
         (Command_to_json (fst (AlertCommand target message severity t0 k0))) now counter) =
     Inr (Some \<lparr>Command_id = ''cmd_'' @ to_string (unat counter),
               Command_target_id = target, Command_type = ALERT,
               Command_payload =
                 JObject [(''message'', JString message),
                          (''severity'', JInt (scast severity))],
               Command_timestamp = now\<rparr>) \<and>
   (\<not> contains j ''target_id'' \<or> \<not> contains j ''type'' \<longrightarrow>
      Command_from_json j now counter = (Inr None, counter))"
proof -
  have rt: "Command_from_json (Command_to_json c) now counter =
     (Inr (Some (c\<lparr>Command_id := ''cmd_'' @ to_string (unat counter),
                   Command_timestamp := now\<rparr>)), counter + 1)" for c
    by (simp add: Command_round_trip generate_id_def)
  have missing: "\<not> contains j ''target_id'' \<or> \<not> contains j ''type'' \<longrightarrow>
      Command_from_json j now counter = (Inr None, counter)"
    by (simp add: Command_from_json_def)
  show ?thesis
    using missing
    by (simp add: rt MoveCommand_def ReportCommand_def AlertCommand_def Command_ctor_def
        generate_id_def)
qed

theorem command_json_round_trip_witness:
  "\<not> contains (JObject [(''type'', JInt 0)]) ''target_id'' \<and>
   Command_from_json (JObject [(''type'', JInt 0)]) 0 0 = (Inr None, 0) \<and>
   \<not> contains (JObject [(''target_id'', JString ''unit_001'')]) ''type'' \<and>
   Command_from_json (JObject [(''target_id'', JString ''unit_001'')]) 0 0 = (Inr None, 0)"
  using command_json_round_trip [where j = "JObject [(''type'', JInt 0)]"
          and now = 0 and counter = 0]
        command_json_round_trip [where j = "JObject [(''target_id'', JString ''unit_001'')]"
          and now = 0 and counter = 0]
  by (simp add: contains_def)

text \<open>
  C5, as amended. Decoding does not read the "id" and "timestamp" members: a document
  gives the same result whatever it holds for them. Every decoded command has the id
  "cmd_" followed by the value of the decoding process's counter, the creation time of
  the decoding, and the counter goes up by one. For a command built when the counter was
  \<open>k0\<close> and decoded from its own encoding when the counter is \<open>k\<close>, the decoded id
  equals the command's id, which is the id recorded in the document, exactly when
  \<open>k = k0\<close>. So the ids differ when the command is decoded in the process that built
  it after \<open>n < 2^64 - 1\<close> more ids were generated.
\<close>

theorem decoded_command_has_fresh_id:
  "Command_from_json (JObject ((''id'', v) # (''timestamp'', w) # kvs)) now k =
     Command_from_json (JObject kvs) now k \<and>
   (Command_from_json j now k = (Inr (Some c'), k') \<longrightarrow>
      Command_id c' = ''cmd_'' @ to_string (unat k) \<and> Command_timestamp c' = now \<and>
      k' = k + 1) \<and>
   (let (c, k1) = Command_ctor target type payload t0 k0;
        (r, k2) = Command_from_json (Command_to_json c) now k
    in \<exists>d. r = Inr (Some d) \<and> k2 = k + 1 \<and>
           Command_id c = ''cmd_'' @ to_string (unat k0) \<and>
           Command_id d = ''cmd_'' @ to_string (unat k) \<and>
           at_const (Command_to_json c) ''id'' = Inr (JString (Command_id c)) \<and>
           (Command_id d = Command_id c) = (k = k0) \<and>
           (at_const (Command_to_json c) ''id'' = Inr (JString (Command_id d))) = (k = k0)) \<and>
   (n < 2 ^ 64 - 1 \<longrightarrow>
      (let (c, k1) = Command_ctor target type payload t0 k0;
           (r, k2) = Command_from_json (Command_to_json c) now (k1 + of_nat n)
       in \<exists>d. r = Inr (Some d) \<and>
              Command_id d \<noteq> Command_id c \<and>
              at_const (Command_to_json c) ''id'' = Inr (JString (Command_id c)) \<and>
              at_const (Command_to_json c) ''id'' \<noteq> Inr (JString (Command_id d))))"
proof -
  have doc: "at_const (Command_to_json c) ''id'' = Inr (JString (Command_id c))" for c
    by (simp add: Command_to_json_def at_const_def)
  have same: "(fst (generate_id a) = fst (generate_id b)) = (a = b)" for a b
    using generate_id_inj by blast
  have exact: "(let (c, k1) = Command_ctor target type payload t0 k0;
        (r, k2) = Command_from_json (Command_to_json c) now k
    in \<exists>d. r = Inr (Some d) \<and> k2 = k + 1 \<and>
           Command_id c = ''cmd_'' @ to_string (unat k0) \<and>
           Command_id d = ''cmd_'' @ to_string (unat k) \<and>
           at_const (Command_to_json c) ''id'' = Inr (JString (Command_id c)) \<and>
           (Command_id d = Command_id c) = (k = k0) \<and>
           (at_const (Command_to_json c) ''id'' = Inr (JString (Command_id d))) = (k = k0))"
    using same [of k k0] same [of k0 k]
    by (simp add: Command_round_trip doc Command_ctor_def split_def)
       (auto simp: generate_id_def)
  have third: "n < 2 ^ 64 - 1 \<longrightarrow>
      (let (c, k1) = Command_ctor target type payload t0 k0;
           (r, k2) = Command_from_json (Command_to_json c) now (k1 + of_nat n)
       in \<exists>d. r = Inr (Some d) \<and>
              Command_id d \<noteq> Command_id c \<and>
              at_const (Command_to_json c) ''id'' = Inr (JString (Command_id c)) \<and>
              at_const (Command_to_json c) ''id'' \<noteq> Inr (JString (Command_id d)))"
  proof
    assume n: "n < 2 ^ 64 - 1"
    have ne: "fst (generate_id (k0 + 1 + of_nat n)) \<noteq> fst (generate_id k0)"
      using counter_not_back [OF n, of k0] generate_id_inj by blast
    show "(let (c, k1) = Command_ctor target type payload t0 k0;
           (r, k2) = Command_from_json (Command_to_json c) now (k1 + of_nat n)
       in \<exists>d. r = Inr (Some d) \<and>
              Command_id d \<noteq> Command_id c \<and>
              at_const (Command_to_json c) ''id'' = Inr (JString (Command_id c)) \<and>
              at_const (Command_to_json c) ''id'' \<noteq> Inr (JString (Command_id d)))"
      using ne by (simp add: Command_round_trip doc Command_ctor_def split_def)
         (auto simp: generate_id_def)
  qed
  have first: "Command_from_json (JObject ((''id'', v) # (''timestamp'', w) # kvs)) now k =
     Command_from_json (JObject kvs) now k"
    by (rule Command_from_json_ignores_id)
  have second: "Command_from_json j now k = (Inr (Some c'), k') \<longrightarrow>
      Command_id c' = ''cmd_'' @ to_string (unat k) \<and> Command_timestamp c' = now \<and>
      k' = k + 1"
    using Command_from_json_fresh [of j now k c' k'] by blast
  from first second exact third show ?thesis
    by (intro conjI)
qed

theorem decoded_command_has_fresh_id_witness:
  "Command_from_json (Command_to_json move_cmd) 9 5 =
     (Inr (Some (move_cmd\<lparr>Command_id := ''cmd_5'', Command_timestamp := 9\<rparr>)), 6) \<and>
   (4 :: nat) < 2 ^ 64 - 1 \<and>
   Command_id move_cmd = ''cmd_0'' \<and>
   at_const (Command_to_json move_cmd) ''id'' = Inr (JString ''cmd_0'')"
proof -
  have decoded: "Command_from_json (Command_to_json move_cmd) 9 5 =
     (Inr (Some (move_cmd\<lparr>Command_id := ''cmd_5'', Command_timestamp := 9\<rparr>)), 6)"
    by (simp add: Command_round_trip generate_id_def to_string_5)
  have doc: "at_const (Command_to_json move_cmd) ''id'' = Inr (JString ''cmd_0'')"
    by (simp add: Command_to_json_def at_const_def move_cmd_id)
  have small: "(4 :: nat) < 2 ^ 64 - 1"
    by simp
  from decoded_command_has_fresh_id [where j = "Command_to_json move_cmd" and now = 9
          and k = 5 and k' = 6
          and c' = "move_cmd\<lparr>Command_id := ''cmd_5'', Command_timestamp := 9\<rparr>"
          and n = 4 and ?k0.0 = 0 and ?t0.0 = 0 and target = unit_001 and type = MOVE
          and v = JNull and w = JNull and kvs = "[]" and payload = JNull]
       decoded doc small move_cmd_id
  show ?thesis
    by (intro conjI)
qed

text \<open>
  C5 as stated fails when the decoding counter stands where the command's own id was
  taken, as in a second process that has built no command yet: the command with id
  "cmd_0", decoded at counter 0 and time 0, comes back with the same id.
\<close>

theorem decoded_command_same_id_counterexample:
  "fst (Command_from_json (Command_to_json move_cmd) 0 0) = Inr (Some move_cmd) \<and>
   Command_id move_cmd = ''cmd_0'' \<and>
   at_const (Command_to_json move_cmd) ''id'' = Inr (JString ''cmd_0'')"
proof -
  have new_id: "fst (generate_id 0) = Command_id move_cmd"
    by (simp add: move_cmd_def MoveCommand_def Command_ctor_def split_def Let_def)
  have new_time: "Command_timestamp move_cmd = 0"
    by (simp add: move_cmd_def MoveCommand_def Command_ctor_def split_def Let_def)
  have "fst (Command_from_json (Command_to_json move_cmd) 0 0) =
      Inr (Some (move_cmd\<lparr>Command_id := Command_id move_cmd,
                          Command_timestamp := Command_timestamp move_cmd\<rparr>))"
    by (simp add: Command_round_trip new_id new_time)
  then have "fst (Command_from_json (Command_to_json move_cmd) 0 0) = Inr (Some move_cmd)"
    by simp
  moreover have "at_const (Command_to_json move_cmd) ''id'' = Inr (JString ''cmd_0'')"
    by (simp add: Command_to_json_def at_const_def move_cmd_id)
  ultimately show ?thesis
    by (simp add: move_cmd_id)
qed

section \<open>Telemetry on the wire\<close>




text \<open>
  C7. On the text of a telemetry report whose "data" object has none of the required
  members, \<open>deserialize_telemetry\<close> does not return: the read of "unit_id" from the
  const document is undefined behaviour, which the handler's try block does not catch.
\<close>

theorem deserialize_telemetry_missing_fields:
  "deserialize_telemetry
     (parse_only telemetry_without_fields
        (JObject [(''type'', JString ''telemetry''), (''data'', JObject [])]))
     telemetry_without_fields 0 = Inl undefined_behaviour"
  by (simp add: deserialize_telemetry_def parse_only_def TelemetryReport_from_json_def
      TelemetryData_from_json_def catch_exception_def json_access_defs)

text \<open>
  C10. \<open>ProtocolMessage::from_json\<close> and \<open>Command::from_json\<close> check that their
  required members are present and yield no value when one is absent. A protocol message
  document with an integer "type" \<open>n\<close> and a string "payload" decodes to a message
  whose type is \<open>n\<close> cast to the 32-bit underlying type; a command document with a
  string "target_id" and an integer "type" \<open>n\<close> decodes to a command of type \<open>n\<close>
  cast likewise; a telemetry data document with the required members and an integer
  "status" \<open>n\<close> decodes to a record with that status. None of the three checks the
  range: 7 cast is none of the declared message types, command types or unit states.
  \<open>TelemetryData::from_json\<close> does not check presence: on a data document that has a
  "status" and no "unit_id" the read of "unit_id" is undefined behaviour.
\<close>

theorem decoders_accept_any_enum_value:
  "(\<not> contains j ''type'' \<or> \<not> contains j ''payload'' \<longrightarrow>
      ProtocolMessage_from_json j = Inr None) \<and>
   (\<not> contains j ''target_id'' \<or> \<not> contains j ''type'' \<longrightarrow>
      Command_from_json j now k = (Inr None, k)) \<and>
   TelemetryData_from_json (JObject [(''status'', JInt 7)]) now = Inl undefined_behaviour \<and>
   ((map_of kvs ''type'' = Some (JInt n) \<or> map_of kvs ''type'' = Some (JUInt n)) \<and>
    map_of kvs ''payload'' = Some (JString s) \<longrightarrow>
      ProtocolMessage_from_json (JObject kvs) =
        Inr (Some \<lparr>ProtocolMessage_type = ucast n, ProtocolMessage_payload = s\<rparr>)) \<and>
   ((map_of kvs ''type'' = Some (JInt n) \<or> map_of kvs ''type'' = Some (JUInt n)) \<and>
    map_of kvs ''target_id'' = Some (JString target) \<longrightarrow>
      Command_from_json (JObject kvs) now k =
        (Inr (Some \<lparr>Command_id = ''cmd_'' @ to_string (unat k),
                   Command_target_id = UnitId target, Command_type = ucast n,
                   Command_payload =
                     (case map_of kvs ''payload'' of Some p \<Rightarrow> p | None \<Rightarrow> JNull),
                   Command_timestamp = now\<rparr>), k + 1)) \<and>
   (st = JInt n \<or> st = JUInt n \<longrightarrow>
      TelemetryData_from_json (JObject (required_fields u px py pz st)) now =
        Inr \<lparr>TelemetryData_unit_id = UnitId u, TelemetryData_position = Position px py pz,
             TelemetryData_status = ucast n, TelemetryData_battery_level = double_100,
             TelemetryData_cpu_usage = double_0, TelemetryData_memory_usage = double_0,
             TelemetryData_last_command_id = [], TelemetryData_timestamp = now\<rparr>) \<and>
   (ucast (7 :: 64 word) :: 32 word) \<notin>
      {MessageType_COMMAND, MessageType_TELEMETRY, MessageType_ACKNOWLEDGMENT,
       MessageType_ERROR} \<and>
   (ucast (7 :: 64 word) :: 32 word) \<notin> {MOVE, REPORT, ALERT, SHUTDOWN} \<and>
   (ucast (7 :: 64 word) :: 32 word) \<notin>
      {UnitStatus_IDLE, UnitStatus_MOVING, UnitStatus_BUSY, UnitStatus_ERROR,
       UnitStatus_OFFLINE}"
proof -
  have msg_presence: "\<not> contains j ''type'' \<or> \<not> contains j ''payload'' \<longrightarrow>
      ProtocolMessage_from_json j = Inr None"
    by (simp add: ProtocolMessage_from_json_def)
  have cmd_presence: "\<not> contains j ''target_id'' \<or> \<not> contains j ''type'' \<longrightarrow>
      Command_from_json j now k = (Inr None, k)"
    by (simp add: Command_from_json_def)
  have tel_presence:
    "TelemetryData_from_json (JObject [(''status'', JInt 7)]) now = Inl undefined_behaviour"
    by (simp add: TelemetryData_from_json_def json_access_defs)
  have msg: "(map_of kvs ''type'' = Some (JInt n) \<or> map_of kvs ''type'' = Some (JUInt n)) \<and>
    map_of kvs ''payload'' = Some (JString s) \<longrightarrow>
      ProtocolMessage_from_json (JObject kvs) =
        Inr (Some \<lparr>ProtocolMessage_type = ucast n, ProtocolMessage_payload = s\<rparr>)"
    by (auto simp: ProtocolMessage_from_json_def json_access_defs)
  have cmd: "(map_of kvs ''type'' = Some (JInt n) \<or> map_of kvs ''type'' = Some (JUInt n)) \<and>
    map_of kvs ''target_id'' = Some (JString target) \<longrightarrow>
      Command_from_json (JObject kvs) now k =
        (Inr (Some \<lparr>Command_id = ''cmd_'' @ to_string (unat k),
                   Command_target_id = UnitId target, Command_type = ucast n,
                   Command_payload =
                     (case map_of kvs ''payload'' of Some p \<Rightarrow> p | None \<Rightarrow> JNull),
                   Command_timestamp = now\<rparr>), k + 1)"
    by (auto simp: Command_from_json_def json_access_defs Command_ctor_def generate_id_def
        split: option.splits)
  have tel: "st = JInt n \<or> st = JUInt n \<longrightarrow>
      TelemetryData_from_json (JObject (required_fields u px py pz st)) now =
        Inr \<lparr>TelemetryData_unit_id = UnitId u, TelemetryData_position = Position px py pz,
             TelemetryData_status = ucast n, TelemetryData_battery_level = double_100,
             TelemetryData_cpu_usage = double_0, TelemetryData_memory_usage = double_0,
             TelemetryData_last_command_id = [], TelemetryData_timestamp = now\<rparr>"
    using TelemetryData_required TelemetryData_required_unsigned by blast
  have out: "(ucast (7 :: 64 word) :: 32 word) \<notin>
      {MessageType_COMMAND, MessageType_TELEMETRY, MessageType_ACKNOWLEDGMENT,
       MessageType_ERROR} \<and>
   (ucast (7 :: 64 word) :: 32 word) \<notin> {MOVE, REPORT, ALERT, SHUTDOWN} \<and>
   (ucast (7 :: 64 word) :: 32 word) \<notin>
      {UnitStatus_IDLE, UnitStatus_MOVING, UnitStatus_BUSY, UnitStatus_ERROR,
       UnitStatus_OFFLINE}"
    by (simp add: CommandType_defs MessageType_COMMAND_def MessageType_TELEMETRY_def
        MessageType_ACKNOWLEDGMENT_def MessageType_ERROR_def UnitStatus_IDLE_def
        UnitStatus_MOVING_def UnitStatus_BUSY_def UnitStatus_ERROR_def UnitStatus_OFFLINE_def)
  from msg_presence cmd_presence tel_presence msg cmd tel out show ?thesis by blast
qed

theorem decoders_accept_any_enum_value_witness:
  "\<not> contains (JObject [(''type'', JInt 0)]) ''payload'' \<and>
   ProtocolMessage_from_json (JObject [(''type'', JInt 0)]) = Inr None \<and>
   \<not> contains (JObject [(''type'', JInt 0)]) ''target_id'' \<and>
   Command_from_json (JObject [(''type'', JInt 0)]) 0 5 = (Inr None, 5) \<and>
   ProtocolMessage_from_json (JObject [(''type'', JInt 7), (''payload'', JString ''x'')]) =
     Inr (Some \<lparr>ProtocolMessage_type = 7, ProtocolMessage_payload = ''x''\<rparr>) \<and>
   fst (Command_from_json
         (JObject [(''target_id'', JString ''unit_001''), (''type'', JUInt 7)]) 0 5) =
     Inr (Some \<lparr>Command_id = ''cmd_5'', Command_target_id = unit_001, Command_type = 7,
               Command_payload = JNull, Command_timestamp = 0\<rparr>) \<and>
   TelemetryData_from_json (JObject (required_fields ''unit_001'' 0 0 0 (JInt 7))) 0 =
     Inr \<lparr>TelemetryData_unit_id = unit_001, TelemetryData_position = Position 0 0 0,
          TelemetryData_status = 7, TelemetryData_battery_level = double_100,
          TelemetryData_cpu_usage = double_0, TelemetryData_memory_usage = double_0,
          TelemetryData_last_command_id = [], TelemetryData_timestamp = 0\<rparr>"
  using decoders_accept_any_enum_value
          [where kvs = "[(''type'', JInt 7), (''payload'', JString ''x'')]" and n = 7
             and s = "''x''" and st = "JInt 7" and u = "''unit_001''" and px = 0 and py = 0
             and pz = 0 and now = 0 and j = "JObject [(''type'', JInt 0)]" and k = 5]
        decoders_accept_any_enum_value
          [where kvs = "[(''target_id'', JString ''unit_001''), (''type'', JUInt 7)]"
             and n = 7 and target = "''unit_001''" and now = 0 and k = 5]
  by (simp add: to_string_5 unit_001_def contains_def)

section \<open>Unit registry\<close>

text \<open>
  C9. For an id that is not registered, \<open>update_unit_status\<close>, \<open>update_unit_position\<close>
  and \<open>unregister_unit\<close> leave the registry, its units and its log as they were, and
  \<open>get_unit\<close> gives no value. For a registered id, \<open>update_unit_status\<close> and
  \<open>update_unit_position\<close> change that unit only: they set the status, respectively the
  position, and set the unit's last-update time to the current time.
\<close>

theorem registry_updates:
  "(UnitRegistry_units r unit_id = None \<longrightarrow>
      update_unit_status unit_id status now r = r \<and>
      update_unit_position unit_id pos now r = r \<and>
      unregister_unit unit_id r = r \<and>
      get_unit unit_id r = None) \<and>
   (UnitRegistry_units r unit_id = Some unit \<longrightarrow>
      get_unit unit_id r = Some unit \<and>
      update_unit_status unit_id status now r =
        r\<lparr>UnitRegistry_store := (UnitRegistry_store r)
            (unit := (UnitRegistry_store r unit)
                       \<lparr>Unit_status := status, Unit_last_update := now\<rparr>)\<rparr> \<and>
      update_unit_position unit_id pos now r =
        r\<lparr>UnitRegistry_store := (UnitRegistry_store r)
            (unit := (UnitRegistry_store r unit)
                       \<lparr>Unit_position := pos, Unit_last_update := now\<rparr>)\<rparr>)"
  by (simp add: update_unit_status_def update_unit_position_def unregister_unit_def
      get_unit_def set_status_def set_position_def)

theorem registry_updates_witness:
  "UnitRegistry_units test_registry unit_002 = None \<and>
   update_unit_status unit_002 UnitStatus_BUSY 9 test_registry = test_registry \<and>
   UnitRegistry_units test_registry unit_001 = Some 0 \<and>
   Unit_status (UnitRegistry_store
     (update_unit_status unit_001 UnitStatus_BUSY 9 test_registry) 0) = UnitStatus_BUSY \<and>
   Unit_last_update (UnitRegistry_store
     (update_unit_status unit_001 UnitStatus_BUSY 9 test_registry) 0) = 9 \<and>
   Unit_last_update (UnitRegistry_store test_registry 0) = 5"
  using registry_updates [where r = test_registry and unit_id = unit_002 and unit = 0
          and status = UnitStatus_BUSY and now = 9 and pos = "Position 0 0 0"]
        registry_updates [where r = test_registry and unit_id = unit_001 and unit = 0
          and status = UnitStatus_BUSY and now = 9 and pos = "Position 0 0 0"]
  by (simp add: test_registry_def register_unit_def test_unit_def unit_defs Let_def)

section \<open>Observer bus\<close>

text \<open>
  C8, the part on notification. \<open>notify_telemetry\<close> leaves the set of observers as it
  is. Adding and removing observers keeps the set free of duplicates, and on such a set
  one notification invokes \<open>on_telemetry_received\<close> exactly once, with the report, on
  every registered observer that is alive, and not at all on any other. The bus has no
  operation that counts its observers.
\<close>

theorem notify_telemetry_live_observers:
  "observers (notify_telemetry report alive b) = observers b \<and>
   (distinct (observers b) \<longrightarrow>
      distinct (observers (add_observer p b)) \<and>
      distinct (observers (remove_observer p b)) \<and>
      (\<forall>observer.
         calls (notify_telemetry report alive b) observer =
           (if observer \<in> set (observers b) \<and> alive observer
            then calls b observer @ [report] else calls b observer)))"
  by (simp add: notify_telemetry_def fold_notify_distinct distinct_add_observer
      distinct_remove_observer)

theorem notify_telemetry_live_observers_witness:
  "distinct (observers test_bus) \<and>
   observers (notify_telemetry test_report (\<lambda>p. p = 2) test_bus) = [1, 2] \<and>
   calls (notify_telemetry test_report (\<lambda>p. p = 2) test_bus) 1 = [] \<and>
   calls (notify_telemetry test_report (\<lambda>p. p = 2) test_bus) 2 = [test_report]"
  using notify_telemetry_live_observers
    [where b = test_bus and alive = "\<lambda>p. p = 2" and report = test_report and p = 1]
  by (simp add: test_bus_def add_observer_def)

end
